theory Spec2Isabelle
  imports Main "HOL-Library.Word"
begin

section \<open>The Lua 5.1 runtime, as far as luaclass.c uses it\<close>

text \<open>
  luaclass.c is written against the C API of Lua 5.1. The part of the runtime it touches
  is modelled here after lapi.c, lauxlib.c and ltable.c: the value stack of the running
  C function, the tables and full userdata of the heap with their metatables, and the
  registry. A C pointer is an address; a pointer that may be NULL is an option.
\<close>

type_synonym addr = nat

type_synonym gpointer = "addr option"

text \<open>
  A Lua number is a C double (luaconf.h: \<open>LUA_NUMBER\<close>), kept here as its IEEE 754 bit
  pattern: sign, 11 bits of exponent, 52 bits of mantissa. luaclass.c computes with no
  number; the runtime compares numbers (\<open>luai_numeq\<close>) and prints them
  (\<open>lua_number2str\<close>).
\<close>

type_synonym lua_Number = "64 word"

datatype lua_value =
    LNil
  | LBoolean bool
  | LLightuserdata gpointer
  | LNumber lua_Number
  | LString string
  | LTable addr
  | LFunction addr
  | LUserdata addr
  | LThread addr

text \<open>The type tags of lua.h.\<close>

abbreviation (input) LUA_TNONE :: int where "LUA_TNONE \<equiv> - 1"
abbreviation (input) LUA_TNIL :: int where "LUA_TNIL \<equiv> 0"
abbreviation (input) LUA_TBOOLEAN :: int where "LUA_TBOOLEAN \<equiv> 1"
abbreviation (input) LUA_TLIGHTUSERDATA :: int where "LUA_TLIGHTUSERDATA \<equiv> 2"
abbreviation (input) LUA_TNUMBER :: int where "LUA_TNUMBER \<equiv> 3"
abbreviation (input) LUA_TSTRING :: int where "LUA_TSTRING \<equiv> 4"
abbreviation (input) LUA_TTABLE :: int where "LUA_TTABLE \<equiv> 5"
abbreviation (input) LUA_TFUNCTION :: int where "LUA_TFUNCTION \<equiv> 6"
abbreviation (input) LUA_TUSERDATA :: int where "LUA_TUSERDATA \<equiv> 7"
abbreviation (input) LUA_TTHREAD :: int where "LUA_TTHREAD \<equiv> 8"

abbreviation (input) LUA_REGISTRYINDEX :: int where "LUA_REGISTRYINDEX \<equiv> - 10000"

fun ttype :: "lua_value \<Rightarrow> int" where
  "ttype LNil = LUA_TNIL"
| "ttype (LBoolean b) = LUA_TBOOLEAN"
| "ttype (LLightuserdata p) = LUA_TLIGHTUSERDATA"
| "ttype (LNumber n) = LUA_TNUMBER"
| "ttype (LString s) = LUA_TSTRING"
| "ttype (LTable a) = LUA_TTABLE"
| "ttype (LFunction a) = LUA_TFUNCTION"
| "ttype (LUserdata a) = LUA_TUSERDATA"
| "ttype (LThread a) = LUA_TTHREAD"

text \<open>
  A table: its entries in traversal order (the order \<open>lua_next\<close> walks them; an entry
  with a nil value is no entry) and its metatable.
\<close>

record Table =
  node :: "(lua_value \<times> lua_value) list"
  metatable :: "addr option"

text \<open>
  The calls luaclass.c makes through the function pointers of a class are logged:
  which pointer was called, with which object, and on which stack (the field name and
  the value a callback reads are there). The log is instrumentation: no function of
  the source reads it.
\<close>

datatype func =
    Allocator
  | Prop_new
  | Prop_index
  | Prop_newindex
  | Index_miss_property
  | Newindex_miss_property

datatype call = Call func gpointer "lua_value list"

text \<open>
  What ends a C function other than its return: an error raised through
  \<open>lua_error\<close> (a long jump to the runtime's handler), or a fault of the process
  (a NULL dereference, an API call on a value of the wrong kind).
  \<open>luaL_typerror\<close> raises "bad argument #narg (tname expected, got t)".
\<close>

datatype lua_error =
    Typerror int string string
  | Invalid_key_to_next
  | Raised lua_value
  | Segfault

text \<open>
  The state: the stack of the running C function (index 1 first), the tables and the
  metatables of the full userdata by address, the metatables of the other types by type
  tag, and the address of the registry. \<open>lua_number2str\<close> (luaconf.h) prints a number
  through the C library, \<open>sprintf\<close> with the format "%.14g": the C library is not
  modelled, so the printing is a parameter of the runtime, and every theorem holds for
  each printing. Modelled from the spec: \<open>refcount\<close>, the ownership count luaobject.c
  (not among the sources) keeps for a referenced value ("reference-counted callback
  handles"). \<open>calls\<close> is the log of calls.
\<close>

record lua_State =
  stack :: "lua_value list"
  tables :: "addr \<Rightarrow> Table"
  udata_mt :: "addr \<Rightarrow> addr option"
  mt :: "int \<Rightarrow> addr option"
  l_registry :: addr
  lua_number2str :: "lua_Number \<Rightarrow> string"
  refcount :: "addr \<Rightarrow> int"
  calls :: "call list"

text \<open>
  A function of the API or of luaclass.c takes the state and gives the state back,
  with its return value or with what ended it.
\<close>

type_synonym 'a result = "(lua_error + 'a) \<times> lua_State"

definition andthen :: "'a result \<Rightarrow> ('a \<Rightarrow> lua_State \<Rightarrow> 'b result) \<Rightarrow> 'b result" where
  "andthen r k = (case r of (Inl e, L) \<Rightarrow> (Inl e, L) | (Inr x, L) \<Rightarrow> k x L)"

subsection \<open>lapi.c\<close>

text \<open>
  \<open>index2adr\<close>: a positive index counts from the base of the stack, a negative one
  from its top, \<open>LUA_REGISTRYINDEX\<close> is the registry. None is the "none" value of an
  index that is not acceptable.
\<close>

definition index2adr :: "lua_State \<Rightarrow> int \<Rightarrow> lua_value option" where
  "index2adr L idx =
     (if idx > 0 then
        (if nat idx \<le> length (stack L) then Some (stack L ! (nat idx - 1)) else None)
      else if idx > LUA_REGISTRYINDEX then
        (if idx \<noteq> 0 \<and> nat (- idx) \<le> length (stack L)
         then Some (stack L ! (length (stack L) - nat (- idx))) else None)
      else if idx = LUA_REGISTRYINDEX then Some (LTable (l_registry L))
      else None)"

definition lua_type :: "lua_State \<Rightarrow> int \<Rightarrow> int" where
  "lua_type L idx = (case index2adr L idx of None \<Rightarrow> LUA_TNONE | Some v \<Rightarrow> ttype v)"

definition lua_typename :: "lua_State \<Rightarrow> int \<Rightarrow> string" where
  "lua_typename L t =
     (if t = LUA_TNONE then ''no value''
      else [''nil'', ''boolean'', ''userdata'', ''number'', ''string'', ''table'',
            ''function'', ''userdata'', ''thread'', ''proto'', ''upval''] ! nat t)"

definition lua_isnil :: "lua_State \<Rightarrow> int \<Rightarrow> bool" where
  "lua_isnil L idx = (lua_type L idx = LUA_TNIL)"

definition lua_isstring :: "lua_State \<Rightarrow> int \<Rightarrow> bool" where
  "lua_isstring L idx = (let t = lua_type L idx in t = LUA_TSTRING \<or> t = LUA_TNUMBER)"

definition lua_istable :: "lua_State \<Rightarrow> int \<Rightarrow> bool" where
  "lua_istable L idx = (lua_type L idx = LUA_TTABLE)"

definition lua_isfunction :: "lua_State \<Rightarrow> int \<Rightarrow> bool" where
  "lua_isfunction L idx = (lua_type L idx = LUA_TFUNCTION)"

definition lua_touserdata :: "lua_State \<Rightarrow> int \<Rightarrow> gpointer" where
  "lua_touserdata L idx =
     (case index2adr L idx of
        Some (LUserdata a) \<Rightarrow> Some a
      | Some (LLightuserdata p) \<Rightarrow> p
      | _ \<Rightarrow> None)"

definition lua_topointer :: "lua_State \<Rightarrow> int \<Rightarrow> gpointer" where
  "lua_topointer L idx =
     (case index2adr L idx of
        Some (LTable a) \<Rightarrow> Some a
      | Some (LFunction a) \<Rightarrow> Some a
      | Some (LThread a) \<Rightarrow> Some a
      | Some (LUserdata a) \<Rightarrow> lua_touserdata L idx
      | Some (LLightuserdata p) \<Rightarrow> lua_touserdata L idx
      | _ \<Rightarrow> None)"

definition push :: "lua_State \<Rightarrow> lua_value \<Rightarrow> lua_State" where
  "push L v = L\<lparr>stack := stack L @ [v]\<rparr>"

definition lua_pushnil :: "lua_State \<Rightarrow> lua_State" where
  "lua_pushnil L = push L LNil"

definition lua_pushlightuserdata :: "lua_State \<Rightarrow> gpointer \<Rightarrow> lua_State" where
  "lua_pushlightuserdata L p = push L (LLightuserdata p)"

text \<open>\<open>lua_pushvalue\<close> copies the nil object for an index that is not acceptable.\<close>

definition lua_pushvalue :: "lua_State \<Rightarrow> int \<Rightarrow> lua_State" where
  "lua_pushvalue L idx = push L (case index2adr L idx of None \<Rightarrow> LNil | Some v \<Rightarrow> v)"

text \<open>
  \<open>lua_pop(L, n)\<close> is \<open>lua_settop(L, -n - 1)\<close>. Popping more than the stack holds
  moves the top below the base: a fault.
\<close>

definition lua_pop :: "lua_State \<Rightarrow> nat \<Rightarrow> unit result" where
  "lua_pop L n =
     (if n \<le> length (stack L) then (Inr (), L\<lparr>stack := take (length (stack L) - n) (stack L)\<rparr>)
      else (Inl Segfault, L))"

text \<open>\<open>lua_remove\<close> needs a valid stack index (no pseudo-index).\<close>

definition stack_pos :: "lua_State \<Rightarrow> int \<Rightarrow> nat option" where
  "stack_pos L idx =
     (if idx > 0 then (if nat idx \<le> length (stack L) then Some (nat idx - 1) else None)
      else if idx > LUA_REGISTRYINDEX \<and> idx \<noteq> 0 \<and> nat (- idx) \<le> length (stack L)
      then Some (length (stack L) - nat (- idx)) else None)"

definition lua_remove :: "lua_State \<Rightarrow> int \<Rightarrow> unit result" where
  "lua_remove L idx =
     (case stack_pos L idx of
        None \<Rightarrow> (Inl Segfault, L)
      | Some i \<Rightarrow> (Inr (), L\<lparr>stack := take i (stack L) @ drop (Suc i) (stack L)\<rparr>))"

text \<open>The metatable of a value: a table's or a userdata's own, else the one of its type.\<close>

definition getmetatable_of :: "lua_State \<Rightarrow> lua_value option \<Rightarrow> addr option" where
  "getmetatable_of L obj =
     (case obj of
        Some (LTable a) \<Rightarrow> metatable (tables L a)
      | Some (LUserdata a) \<Rightarrow> udata_mt L a
      | Some v \<Rightarrow> mt L (ttype v)
      | None \<Rightarrow> mt L LUA_TNIL)"

definition lua_getmetatable :: "lua_State \<Rightarrow> int \<Rightarrow> bool \<times> lua_State" where
  "lua_getmetatable L objindex =
     (case getmetatable_of L (index2adr L objindex) of
        None \<Rightarrow> (False, L)
      | Some m \<Rightarrow> (True, push L (LTable m)))"

text \<open>
  \<open>luai_numeq\<close> (luaconf.h) is the \<open>==\<close> of C on doubles: a NaN (exponent all ones,
  mantissa not zero) equals nothing, the two zeros are equal, and otherwise two doubles
  are equal when their bits are.
\<close>

definition luai_numisnan :: "lua_Number \<Rightarrow> bool" where
  "luai_numisnan a = (take_bit 11 (drop_bit 52 a) = 2047 \<and> take_bit 52 a \<noteq> 0)"

definition luai_numeq :: "lua_Number \<Rightarrow> lua_Number \<Rightarrow> bool" where
  "luai_numeq a b =
     (\<not> luai_numisnan a \<and> \<not> luai_numisnan b \<and> (a = b \<or> take_bit 63 a = 0 \<and> take_bit 63 b = 0))"

text \<open>
  \<open>luaO_rawequalObj\<close> (lobject.c): values of the same type with the same content;
  numbers are compared by \<open>luai_numeq\<close>.
\<close>

definition luaO_rawequalObj :: "lua_value \<Rightarrow> lua_value \<Rightarrow> bool" where
  "luaO_rawequalObj t1 t2 =
     (case t1 of
        LNumber a \<Rightarrow> (case t2 of LNumber b \<Rightarrow> luai_numeq a b | _ \<Rightarrow> False)
      | _ \<Rightarrow> t1 = t2)"

text \<open>\<open>luaH_get\<close> (ltable.c): raw access, nil for a key the table does not hold.\<close>

definition luaH_get :: "Table \<Rightarrow> lua_value \<Rightarrow> lua_value" where
  "luaH_get t k =
     (case find (\<lambda>kv. luaO_rawequalObj (fst kv) k) (node t) of
        None \<Rightarrow> LNil
      | Some kv \<Rightarrow> snd kv)"

text \<open>
  \<open>lua_rawget\<close> replaces the key on top of the stack by the table's value for it.
  The value at \<open>idx\<close> must be a table, and there must be a key.
\<close>

definition lua_rawget :: "lua_State \<Rightarrow> int \<Rightarrow> unit result" where
  "lua_rawget L idx =
     (case index2adr L idx of
        Some (LTable a) \<Rightarrow>
          (if stack L = [] then (Inl Segfault, L)
           else (Inr (), L\<lparr>stack := butlast (stack L) @ [luaH_get (tables L a) (last (stack L))]\<rparr>))
      | _ \<Rightarrow> (Inl Segfault, L))"

text \<open>\<open>lua_rawequal\<close> is 0 when an index is not acceptable.\<close>

definition lua_rawequal :: "lua_State \<Rightarrow> int \<Rightarrow> int \<Rightarrow> bool" where
  "lua_rawequal L index1 index2 =
     (case (index2adr L index1, index2adr L index2) of
        (Some o1, Some o2) \<Rightarrow> luaO_rawequalObj o1 o2
      | _ \<Rightarrow> False)"

text \<open>
  \<open>lua_tolstring\<close>: a string as it is; a number is converted (\<open>luaV_tostring\<close>
  prints it with \<open>lua_number2str\<close>), and the converted string replaces the number in
  its stack slot; NULL for every other value.
\<close>

definition lua_tolstring :: "lua_State \<Rightarrow> int \<Rightarrow> string option \<times> lua_State" where
  "lua_tolstring L idx =
     (case index2adr L idx of
        Some (LString s) \<Rightarrow> (Some s, L)
      | Some (LNumber n) \<Rightarrow>
          (Some (lua_number2str L n),
           (case stack_pos L idx of
              None \<Rightarrow> L
            | Some i \<Rightarrow> L\<lparr>stack := (stack L)[i := LString (lua_number2str L n)]\<rparr>))
      | _ \<Rightarrow> (None, L))"

text \<open>
  \<open>luaH_next\<close> (ltable.c): the entry after the one of \<open>key\<close>, the first entry for a nil
  key; a key the table does not hold raises "invalid key to 'next'".
\<close>

definition luaH_next :: "Table \<Rightarrow> lua_value \<Rightarrow> lua_error + (lua_value \<times> lua_value) option" where
  "luaH_next t key =
     (if key = LNil then Inr (case node t of [] \<Rightarrow> None | kv # _ \<Rightarrow> Some kv)
      else (case dropWhile (\<lambda>kv. \<not> luaO_rawequalObj (fst kv) key) (node t) of
              [] \<Rightarrow> Inl Invalid_key_to_next
            | _ # rest \<Rightarrow> Inr (case rest of [] \<Rightarrow> None | kv # _ \<Rightarrow> Some kv)))"

text \<open>
  \<open>lua_next\<close> pops the key; it pushes the next key and its value and returns 1, or
  pushes nothing and returns 0 at the end of the table.
\<close>

definition lua_next :: "lua_State \<Rightarrow> int \<Rightarrow> bool result" where
  "lua_next L idx =
     (case index2adr L idx of
        Some (LTable a) \<Rightarrow>
          (if stack L = [] then (Inl Segfault, L)
           else (case luaH_next (tables L a) (last (stack L)) of
                   Inl e \<Rightarrow> (Inl e, L)
                 | Inr None \<Rightarrow> (Inr False, L\<lparr>stack := butlast (stack L)\<rparr>)
                 | Inr (Some (k, v)) \<Rightarrow> (Inr True, L\<lparr>stack := butlast (stack L) @ [k, v]\<rparr>)))
      | _ \<Rightarrow> (Inl Segfault, L))"

subsection \<open>lauxlib.c\<close>

definition luaL_typename :: "lua_State \<Rightarrow> int \<Rightarrow> string" where
  "luaL_typename L idx = lua_typename L (lua_type L idx)"

definition luaL_typerror :: "lua_State \<Rightarrow> int \<Rightarrow> string \<Rightarrow> 'a result" where
  "luaL_typerror L narg tname = (Inl (Typerror narg tname (luaL_typename L narg)), L)"

definition luaL_checklstring :: "lua_State \<Rightarrow> int \<Rightarrow> string result" where
  "luaL_checklstring L narg =
     (case lua_tolstring L narg of
        (None, L1) \<Rightarrow> luaL_typerror L1 narg (lua_typename L1 LUA_TSTRING)
      | (Some s, L1) \<Rightarrow> (Inr s, L1))"

section \<open>luaclass.c\<close>

subsection \<open>The class structures\<close>

text \<open>
  \<open>lua_class_propfunc_t\<close> is a pointer to a C function \<open>(lua_State *, lua_object_t *)\<close>
  returning the number of values it pushed; NULL is None. A callback acts on the Lua
  state only.
\<close>

type_synonym lua_class_propfunc_t = "(lua_State \<Rightarrow> addr \<Rightarrow> int result) option"

type_synonym lua_class_allocator_t = "lua_State \<Rightarrow> addr result"

record lua_class_property =
  new :: lua_class_propfunc_t
  index :: lua_class_propfunc_t
  newindex :: lua_class_propfunc_t

text \<open>
  Modelled from the spec: the signal table \<open>signal_t\<close>, declared in a header that is
  not among the sources ("mapping from signal name (string) to an ordered sequence of
  scripting-side callback references").
\<close>

type_synonym signal_t = "string \<Rightarrow> gpointer list"

text \<open>
  Modelled from the spec: \<open>lua_class_t\<close>, declared in luaclass.h, which is not among
  the sources ("ClassDescriptor: name, allocator, propertyTable, onMissingRead,
  onMissingWrite, signals"). The fields have the names luaclass.c reads and writes them
  by. The property tree is keyed by C strings.
\<close>

record lua_class_t =
  name :: string
  allocator :: lua_class_allocator_t
  properties :: "string \<Rightarrow> lua_class_property option"
  index_miss_property :: lua_class_propfunc_t
  newindex_miss_property :: lua_class_propfunc_t
  signals :: signal_t

text \<open>
  A \<open>lua_class_t *\<close> that is not NULL: the address (under which the class's metatable
  is registered) and the structure it points to. \<open>luaH_classes\<close> is the array of the
  classes \<open>luaH_class_setup\<close> has added.
\<close>

type_synonym lua_class_ptr = "addr \<times> lua_class_t"

type_synonym lua_class_array_t = "lua_class_ptr list"

subsection \<open>Type recognition\<close>

definition luaH_toudata :: "lua_State \<Rightarrow> int \<Rightarrow> lua_class_ptr \<Rightarrow> gpointer result" where
  "luaH_toudata L ud cls =
     (let p = lua_touserdata L ud in
      if p \<noteq> None then
        (case lua_getmetatable L ud of
           (True, L1) \<Rightarrow>
             (let L2 = lua_pushlightuserdata L1 (Some (fst cls)) in
              andthen (lua_rawget L2 LUA_REGISTRYINDEX) (\<lambda>_ L3.
              let p' = (if \<not> lua_rawequal L3 (- 1) (- 2) then None else p) in
              andthen (lua_pop L3 2) (\<lambda>_ L4. (Inr p', L4))))
         | (False, L1) \<Rightarrow> (Inr p, L1))
      else (Inr p, L))"

definition luaH_checkudata :: "lua_State \<Rightarrow> int \<Rightarrow> lua_class_ptr \<Rightarrow> addr result" where
  "luaH_checkudata L ud cls =
     andthen (luaH_toudata L ud cls) (\<lambda>p L1.
       case p of
         None \<Rightarrow> luaL_typerror L1 ud (name (snd cls))
       | Some a \<Rightarrow> (Inr a, L1))"

text \<open>
  The loop of \<open>luaH_class_get\<close> over the classes from index \<open>i\<close> on: it returns the
  first one \<open>luaH_toudata\<close> accepts.
\<close>

fun luaH_class_get_from :: "lua_class_array_t \<Rightarrow> lua_State \<Rightarrow> int \<Rightarrow> lua_class_ptr option result" where
  "luaH_class_get_from [] L idx = (Inr None, L)"
| "luaH_class_get_from (cls # rest) L idx =
     andthen (luaH_toudata L idx cls) (\<lambda>p L1.
       if p \<noteq> None then (Inr (Some cls), L1)
       else luaH_class_get_from rest L1 idx)"

definition luaH_class_get :: "lua_class_array_t \<Rightarrow> lua_State \<Rightarrow> int \<Rightarrow> lua_class_ptr option result" where
  "luaH_class_get luaH_classes L idx =
     (let type = lua_type L idx in
      if type = LUA_TUSERDATA then luaH_class_get_from luaH_classes L idx
      else (Inr None, L))"

definition luaH_typename :: "lua_class_array_t \<Rightarrow> lua_State \<Rightarrow> int \<Rightarrow> string result" where
  "luaH_typename luaH_classes L idx =
     (let type = lua_type L idx in
      if type = LUA_TUSERDATA then
        andthen (luaH_class_get luaH_classes L idx) (\<lambda>lua_class L1.
          case lua_class of
            Some c \<Rightarrow> (Inr (name (snd c)), L1)
          | None \<Rightarrow> (Inr (lua_typename L1 type), L1))
      else (Inr (lua_typename L type), L))"

subsection \<open>Signals\<close>

text \<open>
  Modelled from the spec: \<open>luaH_checkfunction\<close>, a macro of a header that is not among
  the sources ("requires callbackRef to refer to a callable value"; "fails with a type
  error").
\<close>

definition luaH_checkfunction :: "lua_State \<Rightarrow> int \<Rightarrow> unit result" where
  "luaH_checkfunction L n =
     (if \<not> lua_isfunction L n then luaL_typerror L n ''function'' else (Inr (), L))"

text \<open>
  Modelled from the spec: \<open>luaH_object_ref\<close> of luaobject.h, which is not among the
  sources ("taking ownership of one runtime reference"; "one logical ownership
  increment on registration"). The count of a value is kept under its address; a value
  with no address is not counted.
\<close>

definition luaH_object_ref :: "lua_State \<Rightarrow> int \<Rightarrow> gpointer \<times> lua_State" where
  "luaH_object_ref L ud =
     (case lua_topointer L ud of
        None \<Rightarrow> (None, L)
      | Some a \<Rightarrow> (Some a, L\<lparr>refcount := (refcount L)(a := refcount L a + 1)\<rparr>))"

text \<open>
  Modelled from the spec: \<open>luaH_object_unref\<close> of luaobject.h, which is not among the
  sources ("releases the runtime reference"; "one decrement on removal").
\<close>

definition luaH_object_unref :: "lua_State \<Rightarrow> gpointer \<Rightarrow> lua_State" where
  "luaH_object_unref L pointer =
     (case pointer of
        None \<Rightarrow> L
      | Some a \<Rightarrow> L\<lparr>refcount := (refcount L)(a := refcount L a - 1)\<rparr>)"

text \<open>
  Modelled from the spec: \<open>signal_add\<close>, of a header that is not among the sources
  ("stores it"; the references of a name are an "ordered sequence").
\<close>

definition signal_add :: "signal_t \<Rightarrow> string \<Rightarrow> gpointer \<Rightarrow> signal_t" where
  "signal_add sigs nm r = sigs(nm := sigs nm @ [r])"

text \<open>
  Modelled from the spec: \<open>signal_remove\<close>, of a header that is not among the sources
  ("removes the first/matching stored reference by identity"; "removing a signal for
  an unregistered name or reference is a no-op").
\<close>

definition signal_remove :: "signal_t \<Rightarrow> string \<Rightarrow> gpointer \<Rightarrow> signal_t" where
  "signal_remove sigs nm r = sigs(nm := remove1 r (sigs nm))"

text \<open>
  The two functions change \<open>lua_class->signals\<close>: they give the class back beside
  the state.
\<close>

definition luaH_class_add_signal ::
  "lua_State \<Rightarrow> lua_class_t \<Rightarrow> string \<Rightarrow> int \<Rightarrow> unit result \<times> lua_class_t" where
  "luaH_class_add_signal L lua_class nm ud =
     (case luaH_checkfunction L ud of
        (Inl e, L1) \<Rightarrow> ((Inl e, L1), lua_class)
      | (Inr _, L1) \<Rightarrow>
          (case luaH_object_ref L1 ud of
             (r, L2) \<Rightarrow>
               ((Inr (), L2), lua_class\<lparr>signals := signal_add (signals lua_class) nm r\<rparr>)))"

definition luaH_class_remove_signal ::
  "lua_State \<Rightarrow> lua_class_t \<Rightarrow> string \<Rightarrow> int \<Rightarrow> unit result \<times> lua_class_t" where
  "luaH_class_remove_signal L lua_class nm ud =
     (case luaH_checkfunction L ud of
        (Inl e, L1) \<Rightarrow> ((Inl e, L1), lua_class)
      | (Inr _, L1) \<Rightarrow>
          (let ref = lua_topointer L1 ud;
               lua_class' = lua_class\<lparr>signals := signal_remove (signals lua_class) nm ref\<rparr>;
               L2 = luaH_object_unref L1 ref
           in (lua_remove L2 ud, lua_class')))"

subsection \<open>Property dispatch\<close>

definition luaH_usemetatable :: "lua_State \<Rightarrow> int \<Rightarrow> int \<Rightarrow> int result" where
  "luaH_usemetatable L idxobj idxfield =
     (let L1 = snd (lua_getmetatable L idxobj);
          L2 = lua_pushvalue L1 idxfield
      in andthen (lua_rawget L2 (- 2)) (\<lambda>_ L3.
           if \<not> lua_isnil L3 (- 1) then
             andthen (lua_remove L3 (- 2)) (\<lambda>_ L4. (Inr 1, L4))
           else
             andthen (lua_pop L3 2) (\<lambda>_ L4. (Inr 0, L4))))"

text \<open>
  The property tree compares its keys as C strings: of the bytes \<open>lua_tolstring\<close>
  points to, the ones before the first NUL count.
\<close>

definition c_str :: "string \<Rightarrow> string" where
  "c_str s = takeWhile (\<lambda>c. c \<noteq> CHR 0x00) s"

definition g_tree_lookup :: "(string \<Rightarrow> 'a option) \<Rightarrow> string \<Rightarrow> 'a option" where
  "g_tree_lookup tree attr = tree (c_str attr)"

text \<open>Reading a field through a class pointer: a fault when the pointer is NULL.\<close>

definition deref :: "'a option \<Rightarrow> lua_State \<Rightarrow> ('a \<Rightarrow> 'b result) \<Rightarrow> 'b result" where
  "deref p L k = (case p of None \<Rightarrow> (Inl Segfault, L) | Some c \<Rightarrow> k c)"

definition luaH_class_property_get ::
  "lua_State \<Rightarrow> lua_class_ptr option \<Rightarrow> int \<Rightarrow> lua_class_property option result" where
  "luaH_class_property_get L lua_class fieldidx =
     andthen (luaL_checklstring L fieldidx) (\<lambda>attr L1.
       deref lua_class L1 (\<lambda>c. (Inr (g_tree_lookup (properties (snd c)) attr), L1)))"

text \<open>A call through a function pointer: the callback runs, and the call is logged.\<close>

definition call_propfunc ::
  "func \<Rightarrow> (lua_State \<Rightarrow> addr \<Rightarrow> int result) \<Rightarrow> lua_State \<Rightarrow> addr \<Rightarrow> int result" where
  "call_propfunc fn f L p =
     (case f L p of (r, L1) \<Rightarrow> (r, L1\<lparr>calls := calls L @ [Call fn (Some p) (stack L)]\<rparr>))"

definition call_allocator :: "lua_class_allocator_t \<Rightarrow> lua_State \<Rightarrow> addr result" where
  "call_allocator f L =
     (case f L of (r, L1) \<Rightarrow> (r, L1\<lparr>calls := calls L @ [Call Allocator None (stack L)]\<rparr>))"

definition luaH_class_index :: "lua_class_array_t \<Rightarrow> lua_State \<Rightarrow> int result" where
  "luaH_class_index luaH_classes L =
     andthen (luaH_usemetatable L 1 2) (\<lambda>n L1.
       if n \<noteq> 0 then (Inr 1, L1)
       else
         andthen (luaH_class_get luaH_classes L1 1) (\<lambda>cls L2.
         andthen (luaH_class_property_get L2 cls 2) (\<lambda>prop L3.
           case prop of
             Some pr \<Rightarrow>
               (case index pr of
                  Some f \<Rightarrow>
                    deref cls L3 (\<lambda>c.
                      andthen (luaH_checkudata L3 1 c) (\<lambda>p L4. call_propfunc Prop_index f L4 p))
                | None \<Rightarrow> (Inr 0, L3))
           | None \<Rightarrow>
               deref cls L3 (\<lambda>c.
                 case index_miss_property (snd c) of
                   Some f \<Rightarrow>
                     andthen (luaH_checkudata L3 1 c) (\<lambda>p L4.
                       call_propfunc Index_miss_property f L4 p)
                 | None \<Rightarrow> (Inr 0, L3)))))"

definition luaH_class_newindex :: "lua_class_array_t \<Rightarrow> lua_State \<Rightarrow> int result" where
  "luaH_class_newindex luaH_classes L =
     andthen (luaH_usemetatable L 1 2) (\<lambda>n L1.
       if n \<noteq> 0 then (Inr 1, L1)
       else
         andthen (luaH_class_get luaH_classes L1 1) (\<lambda>cls L2.
         andthen (luaH_class_property_get L2 cls 2) (\<lambda>prop L3.
           case prop of
             Some pr \<Rightarrow>
               (case newindex pr of
                  Some f \<Rightarrow>
                    deref cls L3 (\<lambda>c.
                      andthen (luaH_checkudata L3 1 c) (\<lambda>p L4. call_propfunc Prop_newindex f L4 p))
                | None \<Rightarrow> (Inr 0, L3))
           | None \<Rightarrow>
               deref cls L3 (\<lambda>c.
                 case newindex_miss_property (snd c) of
                   Some f \<Rightarrow>
                     andthen (luaH_checkudata L3 1 c) (\<lambda>p L4.
                       call_propfunc Newindex_miss_property f L4 p)
                 | None \<Rightarrow> (Inr 0, L3)))))"

subsection \<open>Construction\<close>

text \<open>
  Modelled from the spec: \<open>luaH_checktable\<close>, a macro of a header that is not among the
  sources ("fails with a type error if it is not a table-like structure at all").
\<close>

definition luaH_checktable :: "lua_State \<Rightarrow> int \<Rightarrow> unit result" where
  "luaH_checktable L n =
     (if \<not> lua_istable L n then luaL_typerror L n ''table'' else (Inr (), L))"

text \<open>
  The body of the loop of \<open>luaH_class_new\<close>: the key is at \<open>-2\<close>, its value at \<open>-1\<close>.
  What \<open>prop->new\<close> returns is dropped.
\<close>

definition luaH_class_new_body :: "lua_State \<Rightarrow> lua_class_ptr \<Rightarrow> addr \<Rightarrow> unit result" where
  "luaH_class_new_body L lua_class object =
     andthen
       (if lua_isstring L (- 2) then
          (case lua_tolstring L (- 2) of
             (None, L1) \<Rightarrow> (Inl Segfault, L1)
           | (Some attr, L1) \<Rightarrow>
               (case g_tree_lookup (properties (snd lua_class)) attr of
                  Some pr \<Rightarrow>
                    (case new pr of
                       Some f \<Rightarrow>
                         andthen (call_propfunc Prop_new f L1 object) (\<lambda>_ L2. (Inr (), L2))
                     | None \<Rightarrow> (Inr (), L1))
                | None \<Rightarrow> (Inr (), L1)))
        else (Inr (), L))
       (\<lambda>_ L3. lua_pop L3 1)"

text \<open>
  The loop \<open>while(lua_next(L, 2))\<close>. A callback may leave any key on the stack, so the
  loop need not end: None is a run that does not return.
\<close>

partial_function (option) luaH_class_new_loop ::
  "lua_State \<Rightarrow> lua_class_ptr \<Rightarrow> addr \<Rightarrow> unit result option" where
  "luaH_class_new_loop L lua_class object =
     (case lua_next L 2 of
        (Inl e, L1) \<Rightarrow> Some (Inl e, L1)
      | (Inr b, L1) \<Rightarrow>
          if b then
            (case luaH_class_new_body L1 lua_class object of
               (Inl e, L2) \<Rightarrow> Some (Inl e, L2)
             | (Inr _, L2) \<Rightarrow> luaH_class_new_loop L2 lua_class object)
          else Some (Inr (), L1))"

definition luaH_class_new :: "lua_State \<Rightarrow> lua_class_ptr \<Rightarrow> int result option" where
  "luaH_class_new L lua_class =
     (case luaH_checktable L 2 of
        (Inl e, L1) \<Rightarrow> Some (Inl e, L1)
      | (Inr _, L1) \<Rightarrow>
          (case call_allocator (allocator (snd lua_class)) L1 of
             (Inl e, L2) \<Rightarrow> Some (Inl e, L2)
           | (Inr object, L2) \<Rightarrow>
               (case luaH_class_new_loop (lua_pushnil L2) lua_class object of
                  None \<Rightarrow> None
                | Some (Inl e, L3) \<Rightarrow> Some (Inl e, L3)
                | Some (Inr _, L3) \<Rightarrow> Some (Inr 1, L3))))"

section \<open>Predicates\<close>

text \<open>
  A native handle tagged by a class: a full userdata whose metatable is the table the
  registry holds under the address of the class (\<open>luaH_class_setup\<close> stores it there).
\<close>

definition tagged_by :: "lua_State \<Rightarrow> int \<Rightarrow> lua_class_ptr \<Rightarrow> bool" where
  "tagged_by L idx cls =
     (case index2adr L idx of
        Some (LUserdata a) \<Rightarrow>
          (case udata_mt L a of
             Some m \<Rightarrow>
               luaH_get (tables L (l_registry L)) (LLightuserdata (Some (fst cls))) = LTable m
           | None \<Rightarrow> False)
      | _ \<Rightarrow> False)"



text \<open>Two states that differ at most in the stack slot of the field key (index 2).\<close>

definition same_but_key :: "lua_State \<Rightarrow> lua_State \<Rightarrow> bool" where
  "same_but_key L L' = (\<exists>x. L' = L\<lparr>stack := (stack L)[1 := x]\<rparr>)"

section \<open>Two classes and a heap, for the concrete runs\<close>

definition label_new :: "lua_State \<Rightarrow> addr \<Rightarrow> int result" where
  "label_new L obj = (Inr 0, L)"

definition label_index :: "lua_State \<Rightarrow> addr \<Rightarrow> int result" where
  "label_index L obj = (Inr 1, push L (LString ''ok''))"

text \<open>The write callback keeps the value written (the top of the stack) in table 30.\<close>

definition label_newindex :: "lua_State \<Rightarrow> addr \<Rightarrow> int result" where
  "label_newindex L obj =
     (Inr 0, L\<lparr>tables := (tables L)(30 := \<lparr>node = [(LString ''label'', last (stack L))],
                                           metatable = None\<rparr>)\<rparr>)"

definition window_miss :: "lua_State \<Rightarrow> addr \<Rightarrow> int result" where
  "window_miss L obj = (Inr 1, push L (LBoolean False))"

definition icon_new :: "lua_State \<Rightarrow> addr \<Rightarrow> int result" where
  "icon_new L obj = (Inl (Raised (LString ''no such icon'')), L)"

definition widget_new :: "lua_State \<Rightarrow> addr result" where
  "widget_new L = (Inr 7, push L (LUserdata 7))"

definition window_new :: "lua_State \<Rightarrow> addr result" where
  "window_new L = (Inr 8, push L (LUserdata 8))"

text \<open>The doubles 1.0, 2.0 and 3.0.\<close>

definition double_1 :: lua_Number where
  "double_1 = 0x3FF0000000000000"

definition double_2 :: lua_Number where
  "double_2 = 0x4000000000000000"

definition double_3 :: lua_Number where
  "double_3 = 0x4008000000000000"

text \<open>
  The printing of the example: "%.14g" prints 1.0, 2.0 and 3.0 as "1", "2" and "3", and
  the runs below print no other number (the value for every other number, the "0" of
  0.0, is a placeholder).
\<close>

definition example_number2str :: "lua_Number \<Rightarrow> string" where
  "example_number2str n =
     (if n = double_1 then ''1'' else if n = double_2 then ''2''
      else if n = double_3 then ''3'' else ''0'')"

text \<open>
  The class at address 100 has the properties "label" and "1" with all three callbacks,
  the property "id" with none, and no miss handler; the function 50 is registered for
  its signal "a". The class at address 200 has the write-only property "title", the
  property "icon" whose construction callback raises an error, and both miss handlers.
\<close>

definition widget_class :: lua_class_t where
  "widget_class =
     \<lparr>name = ''widget'', allocator = widget_new,
      properties =
        [''label'' \<mapsto> \<lparr>new = Some label_new, index = Some label_index,
                        newindex = Some label_newindex\<rparr>,
         ''id'' \<mapsto> \<lparr>new = None, index = None, newindex = None\<rparr>,
         ''1'' \<mapsto> \<lparr>new = Some label_new, index = Some label_index,
                    newindex = Some label_newindex\<rparr>],
      index_miss_property = None, newindex_miss_property = None,
      signals = (\<lambda>nm. if nm = ''a'' then [Some 50] else [])\<rparr>"

definition window_class :: lua_class_t where
  "window_class =
     \<lparr>name = ''window'', allocator = window_new,
      properties =
        [''title'' \<mapsto> \<lparr>new = None, index = None, newindex = Some label_newindex\<rparr>,
         ''icon'' \<mapsto> \<lparr>new = Some icon_new, index = None, newindex = None\<rparr>],
      index_miss_property = Some window_miss, newindex_miss_property = Some window_miss,
      signals = (\<lambda>nm. [])\<rparr>"

definition example_classes :: lua_class_array_t where
  "example_classes = [(100, widget_class), (200, window_class)]"

text \<open>
  The heap: the registry is table 0; tables 21 and 22 are the metatables of the two
  classes (with the method "show" and the field "title"); the userdata 7 is a widget, 8
  a window, 10 has a metatable of its own (table 23), every other userdata has none;
  tables 24, 25 and 27 are init tables.
\<close>

definition example_state :: lua_State where
  "example_state =
     \<lparr>stack = [],
      tables = (\<lambda>a.
        if a = 0 then
          \<lparr>node = [(LLightuserdata (Some 100), LTable 21), (LLightuserdata (Some 200), LTable 22)],
           metatable = None\<rparr>
        else if a = 21 then \<lparr>node = [(LString ''show'', LFunction 50)], metatable = None\<rparr>
        else if a = 22 then \<lparr>node = [(LString ''title'', LFunction 51)], metatable = None\<rparr>
        else if a = 24 then
          \<lparr>node = [(LString ''label'', LString ''ok''), (LBoolean True, LNumber double_3)],
           metatable = None\<rparr>
        else if a = 25 then \<lparr>node = [(LNumber double_1, LBoolean True)], metatable = None\<rparr>
        else if a = 27 then \<lparr>node = [(LString ''icon'', LString ''x'')], metatable = None\<rparr>
        else \<lparr>node = [], metatable = None\<rparr>),
      udata_mt = (\<lambda>a. if a = 7 then Some 21 else if a = 8 then Some 22
                       else if a = 10 then Some 23 else None),
      mt = (\<lambda>t. None),
      l_registry = 0,
      lua_number2str = example_number2str,
      refcount = (\<lambda>a. if a = 50 then 1 else 0),
      calls = []\<rparr>"

definition on_stack :: "lua_value list \<Rightarrow> lua_State" where
  "on_stack vs = example_state\<lparr>stack := vs\<rparr>"

section \<open>Lemmas\<close>

lemmas api_defs = index2adr_def lua_type_def lua_typename_def lua_isnil_def lua_isstring_def
  lua_istable_def lua_isfunction_def lua_touserdata_def lua_topointer_def push_def lua_pushnil_def
  lua_pushlightuserdata_def lua_pushvalue_def lua_pop_def stack_pos_def lua_remove_def
  getmetatable_of_def lua_getmetatable_def luaH_get_def lua_rawget_def lua_rawequal_def
  luai_numisnan_def luai_numeq_def luaO_rawequalObj_def lua_tolstring_def luaH_next_def lua_next_def luaL_typename_def
  luaL_typerror_def luaL_checklstring_def

lemmas luaclass_defs = luaH_toudata_def luaH_checkudata_def luaH_class_get_def luaH_typename_def
  luaH_checkfunction_def luaH_object_ref_def luaH_object_unref_def signal_add_def signal_remove_def
  luaH_class_add_signal_def luaH_class_remove_signal_def luaH_usemetatable_def c_str_def
  g_tree_lookup_def deref_def luaH_class_property_get_def call_propfunc_def call_allocator_def
  luaH_class_index_def luaH_class_newindex_def luaH_checktable_def luaH_class_new_body_def
  luaH_class_new_def luaH_class_new_loop.simps

lemmas example_defs = label_new_def label_index_def label_newindex_def window_miss_def
  icon_new_def double_1_def double_2_def double_3_def example_number2str_def widget_new_def
  window_new_def widget_class_def window_class_def example_classes_def example_state_def
  on_stack_def

lemma andthen_simps [simp]:
  "andthen (Inl e, L) k = (Inl e, L)"
  "andthen (Inr x, L) k = k x L"
  by (simp_all add: andthen_def)

subsection \<open>The stack and the registry\<close>

lemma push_fields [simp]:
  "stack (push L v) = stack L @ [v]"
  "tables (push L v) = tables L"
  "udata_mt (push L v) = udata_mt L"
  "mt (push L v) = mt L"
  "l_registry (push L v) = l_registry L"
  "lua_number2str (push L v) = lua_number2str L"
  "refcount (push L v) = refcount L"
  "calls (push L v) = calls L"
  by (simp_all add: push_def)

lemma luaO_rawequalObj_not_number:
  "(\<forall>n. t2 \<noteq> LNumber n) \<Longrightarrow> luaO_rawequalObj t1 t2 = (t1 = t2)"
  "(\<forall>n. t1 \<noteq> LNumber n) \<Longrightarrow> luaO_rawequalObj t1 t2 = (t1 = t2)"
  by (cases t1; cases t2; simp add: luaO_rawequalObj_def)+

lemma luaO_rawequalObj_LTable [simp]: "luaO_rawequalObj t1 (LTable m) = (t1 = LTable m)"
  by (simp add: luaO_rawequalObj_not_number)

lemma index2adr_registry [simp]: "index2adr L LUA_REGISTRYINDEX = Some (LTable (l_registry L))"
  by (simp add: index2adr_def)

lemma index2adr_push_top [simp]: "index2adr (push L v) (- 1) = Some v"
  by (simp add: index2adr_def)

lemma index2adr_push2_second [simp]: "index2adr (push (push L v) w) (- 2) = Some v"
  by (simp add: index2adr_def nth_append)

lemma lua_rawget_registry_push:
  "lua_rawget (push L k) LUA_REGISTRYINDEX = (Inr (), push L (luaH_get (tables L (l_registry L)) k))"
  by (simp add: lua_rawget_def push_def)

lemma lua_pop_push2: "lua_pop (push (push L v) w) 2 = (Inr (), L)"
  by (simp add: lua_pop_def push_def)

subsection \<open>Type recognition\<close>

lemma luaH_toudata_eq:
  "luaH_toudata L ud cls =
     (Inr (case lua_touserdata L ud of
             None \<Rightarrow> None
           | Some a \<Rightarrow>
               (case getmetatable_of L (index2adr L ud) of
                  None \<Rightarrow> Some a
                | Some m \<Rightarrow>
                    if luaH_get (tables L (l_registry L)) (LLightuserdata (Some (fst cls))) = LTable m
                    then Some a else None)), L)"
proof (cases "lua_touserdata L ud")
  case None
  then show ?thesis by (simp add: luaH_toudata_def)
next
  case (Some a)
  show ?thesis
  proof (cases "getmetatable_of L (index2adr L ud)")
    case None
    with Some show ?thesis by (simp add: luaH_toudata_def lua_getmetatable_def)
  next
    case (Some m)
    with \<open>lua_touserdata L ud = Some a\<close> show ?thesis
      by (simp add: luaH_toudata_def lua_getmetatable_def lua_pushlightuserdata_def
          lua_rawget_registry_push lua_rawequal_def lua_pop_push2)
  qed
qed

lemma luaH_class_get_from_Inr: "\<exists>c. luaH_class_get_from cs L idx = (Inr c, L)"
  by (induction cs) (simp_all add: luaH_toudata_eq)

lemma luaH_class_get_Inr: "\<exists>c. luaH_class_get cs L idx = (Inr c, L)"
  by (simp add: luaH_class_get_def luaH_class_get_from_Inr)

lemma luaH_class_get_from_Some:
  "luaH_class_get_from cs L idx = (Inr (Some c), L') \<Longrightarrow>
   c \<in> set cs \<and> (\<exists>a. luaH_toudata L idx c = (Inr (Some a), L))"
proof (induction cs)
  case Nil
  then show ?case by simp
next
  case (Cons x xs)
  then show ?case by (auto simp: luaH_toudata_eq split: if_splits)
qed

subsection \<open>The metatable shortcut and the field key\<close>

lemma getmetatable_of_push [simp]: "getmetatable_of (push L v) x = getmetatable_of L x"
  by (simp add: getmetatable_of_def split: option.splits lua_value.splits)

lemma luaH_usemetatable_eq:
  assumes "getmetatable_of L (index2adr L idxobj) = Some m"
  shows "luaH_usemetatable L idxobj idxfield =
     (let k = (case index2adr (push L (LTable m)) idxfield of None \<Rightarrow> LNil | Some k \<Rightarrow> k);
          v = luaH_get (tables L m) k
      in if v \<noteq> LNil then (Inr 1, push L v) else (Inr 0, L))"
proof -
  have a: "lua_getmetatable L idxobj = (True, push L (LTable m))"
    using assms by (simp add: lua_getmetatable_def)
  have b: "lua_rawget (push (push L (LTable m)) k) (- 2) = (Inr (), push (push L (LTable m)) (luaH_get (tables L m) k))" for k
    by (simp add: lua_rawget_def) (simp add: push_def butlast_append)
  have c: "lua_remove (push (push L (LTable m)) v) (- 2) = (Inr (), push L v)" for v
    by (simp add: lua_remove_def stack_pos_def push_def)
  have d: "lua_isnil (push L' v) (- 1) = (v = LNil)" for L' v
    by (cases v) (simp_all add: lua_isnil_def lua_type_def)
  show ?thesis
    by (simp add: luaH_usemetatable_def a lua_pushvalue_def b c d lua_pop_push2 Let_def)
qed

lemma index2adr_push_pos:
  "0 < i \<Longrightarrow> nat i \<le> length (stack L) \<Longrightarrow> index2adr (push L v) i = index2adr L i"
  by (auto simp: index2adr_def nth_append)

lemma luaH_usemetatable_key:
  assumes "getmetatable_of L (index2adr L 1) = Some m" and "index2adr L 2 = Some k"
  shows "luaH_usemetatable L 1 2 =
     (if luaH_get (tables L m) k \<noteq> LNil then (Inr 1, push L (luaH_get (tables L m) k))
      else (Inr 0, L))"
proof -
  from assms(2) have "2 \<le> length (stack L)"
    by (simp add: index2adr_def split: if_splits)
  then have "index2adr (push L (LTable m)) 2 = Some k"
    using assms(2) by (simp add: index2adr_push_pos)
  then show ?thesis
    by (simp add: luaH_usemetatable_eq [OF assms(1)])
qed

lemma luaL_checklstring_string:
  "index2adr L i = Some (LString s) \<Longrightarrow> luaL_checklstring L i = (Inr s, L)"
  by (simp add: luaL_checklstring_def lua_tolstring_def)

lemma luaL_checklstring_number:
  "index2adr L i = Some (LNumber n) \<Longrightarrow> stack_pos L i = Some j \<Longrightarrow>
   luaL_checklstring L i =
     (Inr (lua_number2str L n), L\<lparr>stack := (stack L)[j := LString (lua_number2str L n)]\<rparr>)"
  by (simp add: luaL_checklstring_def lua_tolstring_def)

lemma luaL_checklstring_other:
  "index2adr L i = v \<Longrightarrow> (\<forall>s. v \<noteq> Some (LString s)) \<Longrightarrow> (\<forall>n. v \<noteq> Some (LNumber n)) \<Longrightarrow>
   luaL_checklstring L i = (Inl (Typerror i ''string'' (luaL_typename L i)), L)"
  by (auto simp: luaL_checklstring_def lua_tolstring_def luaL_typerror_def lua_typename_def
      split: option.splits lua_value.splits)

subsection \<open>Dispatch once the class is resolved\<close>

lemma getmetatable_of_heap:
  "tables L' = tables L \<Longrightarrow> udata_mt L' = udata_mt L \<Longrightarrow> mt L' = mt L \<Longrightarrow>
   getmetatable_of L' v = getmetatable_of L v"
  by (simp add: getmetatable_of_def split: option.splits lua_value.splits)

lemma lua_type_userdata:
  "(lua_type L idx = LUA_TUSERDATA) = (\<exists>a. index2adr L idx = Some (LUserdata a))"
proof (cases "index2adr L idx")
  case None
  then show ?thesis by (simp add: lua_type_def)
next
  case (Some v)
  then show ?thesis by (cases v) (simp_all add: lua_type_def)
qed

lemma luaH_class_get_Some:
  assumes "luaH_class_get cs L idx = (Inr (Some c), L')"
  shows "c \<in> set cs \<and> (\<exists>a. index2adr L idx = Some (LUserdata a) \<and> luaH_toudata L idx c = (Inr (Some a), L))"
proof -
  from assms have t: "lua_type L idx = LUA_TUSERDATA"
    and g: "luaH_class_get_from cs L idx = (Inr (Some c), L')"
    by (simp_all add: luaH_class_get_def Let_def split: if_splits)
  from t obtain a where a: "index2adr L idx = Some (LUserdata a)"
    by (auto simp: lua_type_userdata)
  from luaH_class_get_from_Some [OF g] obtain b where
    "c \<in> set cs" "luaH_toudata L idx c = (Inr (Some b), L)" by blast
  moreover from this a have "b = a"
    by (simp add: luaH_toudata_eq lua_touserdata_def split: option.splits if_splits)
  ultimately show ?thesis using a by simp
qed

lemma luaH_toudata_same_but_key:
  assumes "same_but_key L L'" and "luaH_toudata L 1 c = (Inr p, L)"
  shows "luaH_toudata L' 1 c = (Inr p, L')"
proof -
  from assms(1) obtain x where x: "L' = L\<lparr>stack := (stack L)[1 := x]\<rparr>"
    by (auto simp: same_but_key_def)
  have i: "index2adr L' 1 = index2adr L 1"
    by (simp add: x index2adr_def)
  have "lua_touserdata L' 1 = lua_touserdata L 1"
    by (simp add: lua_touserdata_def i)
  moreover have "getmetatable_of L' v = getmetatable_of L v" for v
    by (rule getmetatable_of_heap) (simp_all add: x)
  moreover have "tables L' = tables L" "l_registry L' = l_registry L"
    by (simp_all add: x)
  ultimately show ?thesis
    using assms(2) by (simp add: luaH_toudata_eq i cong: option.case_cong)
qed

lemma luaH_checkudata_same_but_key:
  assumes "same_but_key L L'" and "luaH_toudata L 1 c = (Inr (Some a), L)"
  shows "luaH_checkudata L' 1 c = (Inr a, L')"
  by (simp add: luaH_checkudata_def luaH_toudata_same_but_key [OF assms])

lemma luaH_class_index_resolved:
  assumes um: "luaH_usemetatable L 1 2 = (Inr 0, L)"
    and cg: "luaH_class_get cs L 1 = (Inr (Some c), L)"
    and ck: "luaL_checklstring L 2 = (Inr attr, L')"
    and fr: "same_but_key L L'"
    and ob: "index2adr L 1 = Some (LUserdata a)"
  shows "luaH_class_index cs L =
     (case properties (snd c) (c_str attr) of
        Some pr \<Rightarrow>
          (case index pr of
             Some f \<Rightarrow> call_propfunc Prop_index f L' a
           | None \<Rightarrow> (Inr 0, L'))
      | None \<Rightarrow>
          (case index_miss_property (snd c) of
             Some f \<Rightarrow> call_propfunc Index_miss_property f L' a
           | None \<Rightarrow> (Inr 0, L')))"
proof -
  from luaH_class_get_Some [OF cg] ob have t: "luaH_toudata L 1 c = (Inr (Some a), L)"
    by auto
  have cu: "luaH_checkudata L' 1 c = (Inr a, L')"
    by (rule luaH_checkudata_same_but_key [OF fr t])
  show ?thesis
    by (simp add: luaH_class_index_def um cg luaH_class_property_get_def ck deref_def
        g_tree_lookup_def cu split: option.splits)
qed

lemma luaH_class_newindex_resolved:
  assumes um: "luaH_usemetatable L 1 2 = (Inr 0, L)"
    and cg: "luaH_class_get cs L 1 = (Inr (Some c), L)"
    and ck: "luaL_checklstring L 2 = (Inr attr, L')"
    and fr: "same_but_key L L'"
    and ob: "index2adr L 1 = Some (LUserdata a)"
  shows "luaH_class_newindex cs L =
     (case properties (snd c) (c_str attr) of
        Some pr \<Rightarrow>
          (case newindex pr of
             Some f \<Rightarrow> call_propfunc Prop_newindex f L' a
           | None \<Rightarrow> (Inr 0, L'))
      | None \<Rightarrow>
          (case newindex_miss_property (snd c) of
             Some f \<Rightarrow> call_propfunc Newindex_miss_property f L' a
           | None \<Rightarrow> (Inr 0, L')))"
proof -
  from luaH_class_get_Some [OF cg] ob have t: "luaH_toudata L 1 c = (Inr (Some a), L)"
    by auto
  have cu: "luaH_checkudata L' 1 c = (Inr a, L')"
    by (rule luaH_checkudata_same_but_key [OF fr t])
  show ?thesis
    by (simp add: luaH_class_newindex_def um cg luaH_class_property_get_def ck deref_def
        g_tree_lookup_def cu split: option.splits)
qed

lemma same_but_key_refl: "index2adr L 2 = Some k \<Longrightarrow> same_but_key L L"
proof -
  assume "index2adr L 2 = Some k"
  then have "stack L ! 1 = k" "2 \<le> length (stack L)"
    by (simp_all add: index2adr_def split: if_splits)
  then have "L = L\<lparr>stack := (stack L)[1 := k]\<rparr>"
    by (metis list_update_id lua_State.surjective lua_State.update_convs(1))
  then show ?thesis unfolding same_but_key_def by blast
qed

subsection \<open>The calls of the construction loop\<close>




lemma call_propfunc_eq:
  "call_propfunc fn f L p =
     (fst (f L p), (snd (f L p))\<lparr>calls := calls L @ [Call fn (Some p) (stack L)]\<rparr>)"
  by (simp add: call_propfunc_def split: prod.splits)

lemma call_propfunc_calls:
  "calls (snd (call_propfunc fn f L p)) = calls L @ [Call fn (Some p) (stack L)]"
  by (simp add: call_propfunc_def split: prod.splits)



subsection \<open>The construction loop with tidy callbacks\<close>







subsection \<open>Values that no class recognises\<close>

lemma luaH_class_get_not_userdata:
  "lua_type L idx \<noteq> LUA_TUSERDATA \<Longrightarrow> luaH_class_get luaH_classes L idx = (Inr None, L)"
  by (simp add: luaH_class_get_def)

lemma luaH_class_get_from_unregistered:
  assumes "index2adr L idx = Some (LUserdata a)" and "udata_mt L a = Some m"
    and "\<forall>c \<in> set cs. luaH_get (tables L (l_registry L)) (LLightuserdata (Some (fst c))) \<noteq> LTable m"
  shows "luaH_class_get_from cs L idx = (Inr None, L)"
  using assms(3)
proof (induction cs)
  case Nil
  then show ?case by simp
next
  case (Cons c cs)
  have "luaH_toudata L idx c = (Inr None, L)"
    using assms(1,2) Cons.prems
    by (simp add: luaH_toudata_eq lua_touserdata_def getmetatable_of_def)
  with Cons show ?case by simp
qed

lemma luaH_class_get_unregistered:
  assumes "index2adr L idx = Some (LUserdata a)" and "udata_mt L a = Some m"
    and "\<forall>c \<in> set cs. luaH_get (tables L (l_registry L)) (LLightuserdata (Some (fst c))) \<noteq> LTable m"
  shows "luaH_class_get cs L idx = (Inr None, L)"
  using assms(1) luaH_class_get_from_unregistered [OF assms]
  by (simp add: luaH_class_get_def lua_type_def)

lemma luaH_toudata_lightuserdata:
  assumes "index2adr L idx = Some (LLightuserdata (Some p))" and "mt L LUA_TLIGHTUSERDATA = None"
  shows "luaH_toudata L idx cls = (Inr (Some p), L) \<and> luaH_class_get cs L idx = (Inr None, L)"
  using assms
  by (simp add: luaH_toudata_eq lua_touserdata_def getmetatable_of_def luaH_class_get_def
      lua_type_def)

subsection \<open>Tagged handles\<close>

lemma tagged_byD:
  assumes "tagged_by L idx cls"
  obtains a m where "index2adr L idx = Some (LUserdata a)" "udata_mt L a = Some m"
    "luaH_get (tables L (l_registry L)) (LLightuserdata (Some (fst cls))) = LTable m"
  using assms
  by (auto simp: tagged_by_def split: option.splits lua_value.splits)

lemma luaH_toudata_tagged:
  assumes "index2adr L idx = Some (LUserdata a)" and "udata_mt L a = Some m"
  shows "luaH_toudata L idx c =
     (Inr (if luaH_get (tables L (l_registry L)) (LLightuserdata (Some (fst c))) = LTable m
           then Some a else None), L)"
  using assms by (simp add: luaH_toudata_eq lua_touserdata_def getmetatable_of_def)

lemma luaH_class_get_from_tagged:
  assumes "index2adr L idx = Some (LUserdata a)" and "udata_mt L a = Some m"
  shows "cls \<in> set cs \<Longrightarrow> tagged_by L idx cls \<Longrightarrow>
     \<exists>c \<in> set cs. tagged_by L idx c \<and> luaH_class_get_from cs L idx = (Inr (Some c), L)"
proof (induction cs)
  case Nil
  then show ?case by simp
next
  case (Cons x xs)
  show ?case
  proof (cases "luaH_get (tables L (l_registry L)) (LLightuserdata (Some (fst x))) = LTable m")
    case True
    then have "tagged_by L idx x" using assms by (simp add: tagged_by_def)
    moreover have "luaH_class_get_from (x # xs) L idx = (Inr (Some x), L)"
      using True by (simp add: luaH_toudata_tagged [OF assms])
    ultimately show ?thesis by auto
  next
    case False
    then have "\<not> tagged_by L idx x" using assms by (simp add: tagged_by_def)
    with Cons.prems have "cls \<in> set xs" by auto
    from Cons.IH [OF this Cons.prems(2)] obtain c where
      "c \<in> set xs" "tagged_by L idx c" "luaH_class_get_from xs L idx = (Inr (Some c), L)" by blast
    moreover have "luaH_class_get_from (x # xs) L idx = luaH_class_get_from xs L idx"
      using False by (simp add: luaH_toudata_tagged [OF assms])
    ultimately show ?thesis by auto
  qed
qed

lemma luaH_class_get_tagged:
  assumes "cls \<in> set cs" and "tagged_by L idx cls"
  shows "\<exists>c \<in> set cs. tagged_by L idx c \<and> luaH_class_get cs L idx = (Inr (Some c), L)"
proof -
  from assms(2) obtain a m where a: "index2adr L idx = Some (LUserdata a)" "udata_mt L a = Some m"
    by (rule tagged_byD)
  then have "lua_type L idx = LUA_TUSERDATA" by (simp add: lua_type_def)
  with luaH_class_get_from_tagged [OF a assms] show ?thesis
    by (simp add: luaH_class_get_def)
qed

lemma luaL_checklstring_key_cases:
  "(\<exists>attr L'. luaL_checklstring L 2 = (Inr attr, L') \<and> same_but_key L L') \<or>
   luaL_checklstring L 2 = (Inl (Typerror 2 ''string'' (luaL_typename L 2)), L)"
proof (cases "index2adr L 2")
  case None
  then show ?thesis by (simp add: luaL_checklstring_other)
next
  case (Some k)
  then have len: "2 \<le> length (stack L)" by (simp add: index2adr_def split: if_splits)
  show ?thesis
  proof (cases k)
    case (LString s)
    with Some show ?thesis
      using luaL_checklstring_string [of L 2 s] same_but_key_refl [of L k] by simp
  next
    case (LNumber n)
    have "stack_pos L 2 = Some 1" using len by (simp add: stack_pos_def)
    with Some LNumber have "luaL_checklstring L 2 =
       (Inr (lua_number2str L n), L\<lparr>stack := (stack L)[1 := LString (lua_number2str L n)]\<rparr>)"
      using luaL_checklstring_number [of L 2 n 1] by simp
    moreover have "same_but_key L (L\<lparr>stack := (stack L)[1 := LString (lua_number2str L n)]\<rparr>)"
      unfolding same_but_key_def by blast
    ultimately show ?thesis by blast
  qed (use Some in \<open>simp_all add: luaL_checklstring_other\<close>)
qed

lemma same_but_key_calls: "same_but_key L L' \<Longrightarrow> calls L' = calls L"
  by (auto simp: same_but_key_def)

lemma call_propfunc_grows: "calls (snd (call_propfunc fn f L p)) \<noteq> calls L"
  by (simp add: call_propfunc_calls)

subsection \<open>The example\<close>

lemma example_class_get_widget:
  "luaH_class_get example_classes (on_stack (LUserdata 7 # vs)) 1 =
     (Inr (Some (100, widget_class)), on_stack (LUserdata 7 # vs))"
  by (simp add: luaH_class_get_def lua_type_def luaH_toudata_eq lua_touserdata_def
      getmetatable_of_def luaH_get_def luaO_rawequalObj_not_number index2adr_def
      example_classes_def on_stack_def example_state_def)

lemma example_class_get_window:
  "luaH_class_get example_classes (on_stack (LUserdata 8 # vs)) 1 =
     (Inr (Some (200, window_class)), on_stack (LUserdata 8 # vs))"
  by (simp add: luaH_class_get_def lua_type_def luaH_toudata_eq lua_touserdata_def
      getmetatable_of_def luaH_get_def luaO_rawequalObj_not_number index2adr_def
      example_classes_def on_stack_def example_state_def)

lemma on_stack_fields [simp]:
  "stack (on_stack vs) = vs"
  "calls (on_stack vs) = []"
  "l_registry (on_stack vs) = 0"
  "udata_mt (on_stack vs) 7 = Some 21"
  "udata_mt (on_stack vs) 8 = Some 22"
  by (simp_all add: on_stack_def example_state_def)

lemma on_stack_index2adr [simp]:
  "index2adr (on_stack (v # vs)) 1 = Some v"
  "index2adr (on_stack (v # w # vs)) 2 = Some w"
  by (simp_all add: index2adr_def)

lemma example_metatables:
  "luaH_get (tables (on_stack vs) 21) k = (if k = LString ''show'' then LFunction 50 else LNil)"
  "luaH_get (tables (on_stack vs) 22) k = (if k = LString ''title'' then LFunction 51 else LNil)"
  by (simp_all add: luaH_get_def luaO_rawequalObj_not_number on_stack_def example_state_def)

subsection \<open>Signals\<close>

lemma luaH_class_add_then_remove_signal:
  assumes "index2adr L ud = Some (LFunction a)"
  shows "refcount (snd (fst (luaH_class_remove_signal
            (snd (fst (luaH_class_add_signal L lua_class nm ud)))
            (snd (luaH_class_add_signal L lua_class nm ud)) nm ud))) = refcount L"
proof -
  let ?L1 = "L\<lparr>refcount := (refcount L)(a := refcount L a + 1)\<rparr>"
  have "index2adr ?L1 ud = index2adr L ud"
    by (simp add: index2adr_def)
  with assms have i: "index2adr ?L1 ud = Some (LFunction a)"
    by simp
  have ad: "luaH_class_add_signal L lua_class nm ud =
        ((Inr (), ?L1), lua_class\<lparr>signals := (signals lua_class)(nm := signals lua_class nm @ [Some a])\<rparr>)"
    using assms
    by (simp add: luaH_class_add_signal_def luaH_checkfunction_def lua_isfunction_def lua_type_def
        luaH_object_ref_def lua_topointer_def signal_add_def)
  have "refcount (snd (lua_remove L' ud)) = refcount L'" for L'
    by (simp add: lua_remove_def split: option.splits)
  then show ?thesis
    using i
    by (simp add: ad luaH_class_remove_signal_def luaH_checkfunction_def lua_isfunction_def
        lua_type_def lua_topointer_def luaH_object_unref_def Let_def)
qed

subsection \<open>The constructor\<close>




section \<open>The claims\<close>

text \<open>
  C1. A read (\<open>luaH_class_index\<close>) or write (\<open>luaH_class_newindex\<close>) on a handle of
  class \<open>c\<close> whose metatable has no value for the field name \<open>s\<close>: when the property
  table of \<open>c\<close> has an entry for the name with the read (write) callback \<open>f\<close>, the
  dispatch returns what \<open>f\<close> returns on the state and the handle, \<open>fst (f L a)\<close>, in
  the state \<open>f\<close> leaves, \<open>snd (f L a)\<close>, with the call logged; when the entry has
  no such callback the dispatch returns 0 and leaves the state as it was, so the miss
  handler is not called; when there is no entry, the miss handler of the class is called
  in the same way if there is one, and the dispatch returns 0 otherwise. The name is
  looked up as a C string (\<open>c_str\<close>).
\<close>

theorem dispatch_property_table:
  assumes "index2adr L 1 = Some (LUserdata a)"
    and "udata_mt L a = Some m"
    and "index2adr L 2 = Some (LString s)"
    and "luaH_get (tables L m) (LString s) = LNil"
    and "luaH_class_get luaH_classes L 1 = (Inr (Some c), L)"
  shows "luaH_class_index luaH_classes L =
           (case properties (snd c) (c_str s) of
              Some pr \<Rightarrow>
                (case index pr of
                   Some f \<Rightarrow>
                     (fst (f L a),
                      (snd (f L a))\<lparr>calls := calls L @ [Call Prop_index (Some a) (stack L)]\<rparr>)
                 | None \<Rightarrow> (Inr 0, L))
            | None \<Rightarrow>
                (case index_miss_property (snd c) of
                   Some f \<Rightarrow>
                     (fst (f L a),
                      (snd (f L a))\<lparr>calls := calls L @ [Call Index_miss_property (Some a) (stack L)]\<rparr>)
                 | None \<Rightarrow> (Inr 0, L))) \<and>
         luaH_class_newindex luaH_classes L =
           (case properties (snd c) (c_str s) of
              Some pr \<Rightarrow>
                (case newindex pr of
                   Some f \<Rightarrow>
                     (fst (f L a),
                      (snd (f L a))\<lparr>calls := calls L @ [Call Prop_newindex (Some a) (stack L)]\<rparr>)
                 | None \<Rightarrow> (Inr 0, L))
            | None \<Rightarrow>
                (case newindex_miss_property (snd c) of
                   Some f \<Rightarrow>
                     (fst (f L a),
                      (snd (f L a))\<lparr>calls := calls L @ [Call Newindex_miss_property (Some a) (stack L)]\<rparr>)
                 | None \<Rightarrow> (Inr 0, L)))"
proof -
  have gm: "getmetatable_of L (index2adr L 1) = Some m"
    using assms(1,2) by (simp add: getmetatable_of_def)
  have um: "luaH_usemetatable L 1 2 = (Inr 0, L)"
    using assms(4) by (simp add: luaH_usemetatable_key [OF gm assms(3)])
  have ck: "luaL_checklstring L 2 = (Inr s, L)"
    by (rule luaL_checklstring_string [OF assms(3)])
  have fr: "same_but_key L L"
    by (rule same_but_key_refl [OF assms(3)])
  show ?thesis
    by (simp add: luaH_class_index_resolved [OF um assms(5) ck fr assms(1)]
        luaH_class_newindex_resolved [OF um assms(5) ck fr assms(1)] call_propfunc_eq
        split: option.splits)
qed

text \<open>
  C1 on the example: reading "label" of the widget 7 returns the 1 of the read
  callback with the "ok" it pushed; writing "label" returns the 0 of the write callback,
  which has stored the value written; writing the callback-less "id" and reading the
  unknown "nope" on a widget do nothing; reading "nope" on a window returns through its
  miss handler, with the value that pushed.
\<close>

theorem dispatch_property_table_witness:
  "luaH_class_index example_classes (on_stack [LUserdata 7, LString ''label'']) =
     (Inr 1, (on_stack [LUserdata 7, LString ''label'', LString ''ok''])
               \<lparr>calls := [Call Prop_index (Some 7) [LUserdata 7, LString ''label'']]\<rparr>) \<and>
   fst (luaH_class_newindex example_classes (on_stack [LUserdata 7, LString ''label'', LString ''new''])) =
     Inr 0 \<and>
   node (tables (snd (luaH_class_newindex example_classes
           (on_stack [LUserdata 7, LString ''label'', LString ''new'']))) 30) =
     [(LString ''label'', LString ''new'')] \<and>
   calls (snd (luaH_class_newindex example_classes
           (on_stack [LUserdata 7, LString ''label'', LString ''new'']))) =
     [Call Prop_newindex (Some 7) [LUserdata 7, LString ''label'', LString ''new'']] \<and>
   luaH_class_newindex example_classes (on_stack [LUserdata 7, LString ''id'', LString ''new'']) =
     (Inr 0, on_stack [LUserdata 7, LString ''id'', LString ''new'']) \<and>
   luaH_class_index example_classes (on_stack [LUserdata 7, LString ''nope'']) =
     (Inr 0, on_stack [LUserdata 7, LString ''nope'']) \<and>
   luaH_class_index example_classes (on_stack [LUserdata 8, LString ''nope'']) =
     (Inr 1, (on_stack [LUserdata 8, LString ''nope'', LBoolean False])
               \<lparr>calls := [Call Index_miss_property (Some 8) [LUserdata 8, LString ''nope'']]\<rparr>)"
proof -
  have p: "push (on_stack vs) v = on_stack (vs @ [v])" for vs v
    by (simp add: push_def on_stack_def)
  note a = dispatch_property_table [of "on_stack [LUserdata 7, LString ''label'']" 7 21 "''label''"
      example_classes "(100, widget_class)"]
  note b = dispatch_property_table [of "on_stack [LUserdata 7, LString ''label'', LString ''new'']"
      7 21 "''label''" example_classes "(100, widget_class)"]
  note c = dispatch_property_table [of "on_stack [LUserdata 7, LString ''id'', LString ''new'']"
      7 21 "''id''" example_classes "(100, widget_class)"]
  note d = dispatch_property_table [of "on_stack [LUserdata 7, LString ''nope'']" 7 21 "''nope''"
      example_classes "(100, widget_class)"]
  note e = dispatch_property_table [of "on_stack [LUserdata 8, LString ''nope'']" 8 22 "''nope''"
      example_classes "(200, window_class)"]
  from a b c d e show ?thesis
    by (simp add: example_class_get_widget example_class_get_window example_metatables p
        widget_class_def window_class_def c_str_def label_index_def label_newindex_def
        window_miss_def)
qed

text \<open>
  C2. When the metatable of the object has a value other than nil for the field, both
  dispatches push that value and return 1. The result does not depend on the registered
  classes, and the log of calls is as before: no property is looked up, no property or
  miss callback is called.
\<close>

theorem dispatch_metatable_first:
  assumes "getmetatable_of L (index2adr L 1) = Some m"
    and "index2adr L 2 = Some k"
    and "luaH_get (tables L m) k \<noteq> LNil"
  shows "luaH_class_index luaH_classes L = (Inr 1, push L (luaH_get (tables L m) k)) \<and>
         luaH_class_newindex luaH_classes L = (Inr 1, push L (luaH_get (tables L m) k)) \<and>
         calls (snd (luaH_class_index luaH_classes L)) = calls L \<and>
         calls (snd (luaH_class_newindex luaH_classes L)) = calls L"
  using assms(3)
  by (simp add: luaH_class_index_def luaH_class_newindex_def
      luaH_usemetatable_key [OF assms(1,2)])

text \<open>
  C2 on the example: a write to "title" of a window returns the metatable's value,
  although the class has a write callback for "title"; a read of the method "show"
  of a widget returns the method.
\<close>

theorem dispatch_metatable_first_witness:
  "luaH_class_newindex example_classes (on_stack [LUserdata 8, LString ''title'', LString ''x'']) =
     (Inr 1, on_stack [LUserdata 8, LString ''title'', LString ''x'', LFunction 51]) \<and>
   newindex (the (properties window_class ''title'')) = Some label_newindex \<and>
   luaH_class_index example_classes (on_stack [LUserdata 7, LString ''show'']) =
     (Inr 1, on_stack [LUserdata 7, LString ''show'', LFunction 50])"
proof -
  have p: "push (on_stack vs) v = on_stack (vs @ [v])" for vs v
    by (simp add: push_def on_stack_def)
  note a = dispatch_metatable_first [of "on_stack [LUserdata 8, LString ''title'', LString ''x'']"
      22 "LString ''title''" example_classes]
  note b = dispatch_metatable_first [of "on_stack [LUserdata 7, LString ''show'']"
      21 "LString ''show''" example_classes]
  from a b show ?thesis
    by (simp add: getmetatable_of_def example_metatables p window_class_def)
qed

text \<open>
  C3. The init table \<open>{[1] = true}\<close> has a key that is not a string. The
  constructor does not ignore the pair: \<open>lua_isstring\<close> holds of a number, the key is
  converted to the string "1" in its stack slot, the construction callback of the
  property "1" is called, and the next \<open>lua_next\<close> raises "invalid key to 'next'".
\<close>

theorem luaH_class_new_number_key:
  "luaH_class_new (on_stack [LTable 26, LTable 25]) (100, widget_class) =
     Some (Inl Invalid_key_to_next,
           (on_stack [LTable 26, LTable 25, LUserdata 7, LString ''1''])
             \<lparr>calls := [Call Allocator None [LTable 26, LTable 25],
                        Call Prop_new (Some 7)
                          [LTable 26, LTable 25, LUserdata 7, LString ''1'', LBoolean True]]\<rparr>)"
  by (simp add: api_defs luaclass_defs example_defs Let_def)

text \<open>
  C4, as stated, fails: reading a window (whose class has a miss handler) with the key
  \<open>true\<close> raises a type error instead of calling the miss handler; reading a widget
  with the number key 1.0 converts the key to the string "1" in its stack slot and calls
  the read callback of the property "1".
\<close>

theorem dispatch_non_string_key_counterexample:
  "luaH_class_index example_classes (on_stack [LUserdata 8, LBoolean True]) =
     (Inl (Typerror 2 ''string'' ''boolean''), on_stack [LUserdata 8, LBoolean True]) \<and>
   index_miss_property window_class = Some window_miss \<and>
   luaH_class_index example_classes (on_stack [LUserdata 7, LNumber double_1]) =
     (Inr 1, (on_stack [LUserdata 7, LString ''1'', LString ''ok''])
               \<lparr>calls := [Call Prop_index (Some 7) [LUserdata 7, LString ''1'']]\<rparr>)"
  by (simp add: api_defs luaclass_defs example_defs Let_def)

text \<open>
  C4, as amended. In both dispatches, when the metatable of the handle has no value for
  the key: a string key is looked up in the property table as it is; a number key,
  whatever its value, is converted to the string \<open>lua_number2str\<close> prints for it, which
  replaces it in its stack slot (\<open>luaL_checklstring\<close>), and that string is looked up in
  the same way; every other key raises the type error "string expected" on argument 2,
  with the state unchanged, so that neither a property callback nor the miss handler is
  called. A callback that is found is called on the state with the converted key, and
  the dispatch returns what it returns.
\<close>

theorem dispatch_key_conversion:
  assumes "index2adr L 1 = Some (LUserdata a)"
    and "udata_mt L a = Some m"
    and "index2adr L 2 = Some k"
    and "luaH_get (tables L m) k = LNil"
    and "luaH_class_get luaH_classes L 1 = (Inr (Some c), L)"
  shows "luaH_class_index luaH_classes L =
           (case (case k of
                    LString s \<Rightarrow> Some (s, L)
                  | LNumber n \<Rightarrow>
                      Some (lua_number2str L n,
                            L\<lparr>stack := (stack L)[1 := LString (lua_number2str L n)]\<rparr>)
                  | _ \<Rightarrow> None) of
              None \<Rightarrow> (Inl (Typerror 2 ''string'' (luaL_typename L 2)), L)
            | Some (attr, L') \<Rightarrow>
                (case properties (snd c) (c_str attr) of
                   Some pr \<Rightarrow>
                     (case index pr of
                        Some f \<Rightarrow>
                          (fst (f L' a),
                           (snd (f L' a))\<lparr>calls := calls L @ [Call Prop_index (Some a) (stack L')]\<rparr>)
                      | None \<Rightarrow> (Inr 0, L'))
                 | None \<Rightarrow>
                     (case index_miss_property (snd c) of
                        Some f \<Rightarrow>
                          (fst (f L' a),
                           (snd (f L' a))\<lparr>calls := calls L @
                              [Call Index_miss_property (Some a) (stack L')]\<rparr>)
                      | None \<Rightarrow> (Inr 0, L')))) \<and>
         luaH_class_newindex luaH_classes L =
           (case (case k of
                    LString s \<Rightarrow> Some (s, L)
                  | LNumber n \<Rightarrow>
                      Some (lua_number2str L n,
                            L\<lparr>stack := (stack L)[1 := LString (lua_number2str L n)]\<rparr>)
                  | _ \<Rightarrow> None) of
              None \<Rightarrow> (Inl (Typerror 2 ''string'' (luaL_typename L 2)), L)
            | Some (attr, L') \<Rightarrow>
                (case properties (snd c) (c_str attr) of
                   Some pr \<Rightarrow>
                     (case newindex pr of
                        Some f \<Rightarrow>
                          (fst (f L' a),
                           (snd (f L' a))\<lparr>calls := calls L @
                              [Call Prop_newindex (Some a) (stack L')]\<rparr>)
                      | None \<Rightarrow> (Inr 0, L'))
                 | None \<Rightarrow>
                     (case newindex_miss_property (snd c) of
                        Some f \<Rightarrow>
                          (fst (f L' a),
                           (snd (f L' a))\<lparr>calls := calls L @
                              [Call Newindex_miss_property (Some a) (stack L')]\<rparr>)
                      | None \<Rightarrow> (Inr 0, L'))))"
proof -
  have gm: "getmetatable_of L (index2adr L 1) = Some m"
    using assms(1,2) by (simp add: getmetatable_of_def)
  have um: "luaH_usemetatable L 1 2 = (Inr 0, L)"
    using assms(4) by (simp add: luaH_usemetatable_key [OF gm assms(3)])
  from assms(3) have len: "2 \<le> length (stack L)"
    by (simp add: index2adr_def split: if_splits)
  show ?thesis
  proof (cases k)
    case (LString s)
    have ck: "luaL_checklstring L 2 = (Inr s, L)"
      using assms(3) LString by (simp add: luaL_checklstring_string)
    have fr: "same_but_key L L"
      by (rule same_but_key_refl [OF assms(3)])
    show ?thesis
      by (simp add: LString luaH_class_index_resolved [OF um assms(5) ck fr assms(1)]
          luaH_class_newindex_resolved [OF um assms(5) ck fr assms(1)] call_propfunc_eq
          split: option.splits)
  next
    case (LNumber n)
    let ?L' = "L\<lparr>stack := (stack L)[1 := LString (lua_number2str L n)]\<rparr>"
    have sp: "stack_pos L 2 = Some 1" using len by (simp add: stack_pos_def)
    have ck: "luaL_checklstring L 2 = (Inr (lua_number2str L n), ?L')"
      using luaL_checklstring_number [of L 2 n 1] assms(3) LNumber sp by simp
    have fr: "same_but_key L ?L'"
      unfolding same_but_key_def by blast
    show ?thesis
      by (simp add: LNumber luaH_class_index_resolved [OF um assms(5) ck fr assms(1)]
          luaH_class_newindex_resolved [OF um assms(5) ck fr assms(1)] call_propfunc_eq
          split: option.splits del: One_nat_def)
  qed (use assms(3,5) um in \<open>simp_all add: luaH_class_index_def luaH_class_newindex_def
        luaH_class_property_get_def luaL_checklstring_other\<close>)
qed

text \<open>
  C4 (amended) on the example: the number key 2.0 on a window reaches the miss handler
  with the key converted to "2"; a nil key on a widget raises the type error; writing
  a widget under the number key 1.0 reaches the write callback of the property "1";
  the string key "label" reaches its read callback.
\<close>

theorem dispatch_key_conversion_witness:
  "luaH_class_index example_classes (on_stack [LUserdata 8, LNumber double_2]) =
     (Inr 1, (on_stack [LUserdata 8, LString ''2'', LBoolean False])
               \<lparr>calls := [Call Index_miss_property (Some 8) [LUserdata 8, LString ''2'']]\<rparr>) \<and>
   luaH_class_newindex example_classes (on_stack [LUserdata 7, LNil, LString ''new'']) =
     (Inl (Typerror 2 ''string'' ''nil''), on_stack [LUserdata 7, LNil, LString ''new'']) \<and>
   fst (luaH_class_newindex example_classes (on_stack [LUserdata 7, LNumber double_1, LString ''new''])) =
     Inr 0 \<and>
   node (tables (snd (luaH_class_newindex example_classes
           (on_stack [LUserdata 7, LNumber double_1, LString ''new'']))) 30) =
     [(LString ''label'', LString ''new'')] \<and>
   calls (snd (luaH_class_newindex example_classes
           (on_stack [LUserdata 7, LNumber double_1, LString ''new'']))) =
     [Call Prop_newindex (Some 7) [LUserdata 7, LString ''1'', LString ''new'']] \<and>
   luaH_class_index example_classes (on_stack [LUserdata 7, LString ''label'']) =
     (Inr 1, (on_stack [LUserdata 7, LString ''label'', LString ''ok''])
               \<lparr>calls := [Call Prop_index (Some 7) [LUserdata 7, LString ''label'']]\<rparr>)"
proof -
  have u: "(on_stack vs)\<lparr>stack := ws\<rparr> = on_stack ws" for vs ws
    by (simp add: on_stack_def)
  have p: "push (on_stack vs) v = on_stack (vs @ [v])" for vs v
    by (simp add: push_def on_stack_def)
  have f: "lua_number2str (on_stack vs) = example_number2str" for vs
    by (simp add: on_stack_def example_state_def)
  note a = dispatch_key_conversion [of "on_stack [LUserdata 8, LNumber double_2]" 8 22
      "LNumber double_2" example_classes "(200, window_class)"]
  note b = dispatch_key_conversion [of "on_stack [LUserdata 7, LNil, LString ''new'']" 7 21 LNil
      example_classes "(100, widget_class)"]
  note c = dispatch_key_conversion [of "on_stack [LUserdata 7, LNumber double_1, LString ''new'']"
      7 21 "LNumber double_1" example_classes "(100, widget_class)"]
  note d = dispatch_key_conversion [of "on_stack [LUserdata 7, LString ''label'']" 7 21
      "LString ''label''" example_classes "(100, widget_class)"]
  from a b c d show ?thesis
    by (simp add: example_class_get_widget example_class_get_window example_metatables u p f
        widget_class_def window_class_def c_str_def example_number2str_def double_1_def
        double_2_def double_3_def luaL_typename_def lua_typename_def lua_type_def
        label_index_def label_newindex_def window_miss_def)
qed

text \<open>
  C5. The userdata 11 has no metatable: no registered class created it. Yet
  \<open>luaH_class_get\<close> returns the first registered class for it, and \<open>luaH_typename\<close>
  names it a widget.
\<close>

theorem luaH_class_get_foreign_userdata:
  "luaH_class_get example_classes (on_stack [LUserdata 11]) 1 =
     (Inr (Some (100, widget_class)), on_stack [LUserdata 11]) \<and>
   fst (luaH_typename example_classes (on_stack [LUserdata 11]) 1) = Inr ''widget''"
proof -
  have t: "luaH_toudata (on_stack [LUserdata 11]) 1 c = (Inr (Some 11), on_stack [LUserdata 11])" for c
    by (simp add: luaH_toudata_eq lua_touserdata_def getmetatable_of_def index2adr_def
        on_stack_def example_state_def)
  have ty: "lua_type (on_stack [LUserdata 11]) 1 = LUA_TUSERDATA"
    by (simp add: lua_type_def index2adr_def on_stack_def)
  have g: "luaH_class_get example_classes (on_stack [LUserdata 11]) 1 =
     (Inr (Some (100, widget_class)), on_stack [LUserdata 11])"
    by (simp add: luaH_class_get_def ty example_classes_def t)
  have "fst (luaH_typename example_classes (on_stack [LUserdata 11]) 1) = Inr ''widget''"
    by (simp add: luaH_typename_def ty g widget_class_def)
  with g show ?thesis by simp
qed




text \<open>
  C7. The function 50 is registered for the signal "a" of the widget class, with
  ownership count 1; nothing is registered for "b". Removing the function from "b"
  leaves the signal table as it is and raises no error, but releases a reference all the
  same: the count of the function drops to 0 while "a" still holds it.
\<close>

theorem luaH_class_remove_signal_unregistered:
  "signals widget_class ''b'' = [] \<and>
   refcount (on_stack [LFunction 50]) 50 = 1 \<and>
   fst (fst (luaH_class_remove_signal (on_stack [LFunction 50]) widget_class ''b'' 1)) = Inr () \<and>
   signals (snd (luaH_class_remove_signal (on_stack [LFunction 50]) widget_class ''b'' 1)) =
     signals widget_class \<and>
   refcount (snd (fst (luaH_class_remove_signal (on_stack [LFunction 50]) widget_class ''b'' 1))) 50 = 0"
  by (simp add: api_defs luaclass_defs example_defs Let_def fun_eq_iff)

text \<open>
  C8. \<open>luaH_class_add_signal\<close> with a value that is not a function raises the type
  error and leaves the state and the class as they were. With a function at address
  \<open>a\<close>, the count of \<open>a\<close> grows by one and \<open>a\<close> is appended to the references of the
  signal name; nothing else changes.
\<close>

theorem luaH_class_add_signal_checks_first:
  "(\<not> lua_isfunction L ud \<longrightarrow>
      luaH_class_add_signal L lua_class nm ud =
        ((Inl (Typerror ud ''function'' (luaL_typename L ud)), L), lua_class)) \<and>
   (index2adr L ud = Some (LFunction a) \<longrightarrow>
      luaH_class_add_signal L lua_class nm ud =
        ((Inr (), L\<lparr>refcount := (refcount L)(a := refcount L a + 1)\<rparr>),
         lua_class\<lparr>signals := (signals lua_class)(nm := signals lua_class nm @ [Some a])\<rparr>))"
  by (simp add: luaH_class_add_signal_def luaH_checkfunction_def luaL_typerror_def
      lua_isfunction_def lua_type_def luaH_object_ref_def lua_topointer_def signal_add_def)

text \<open>
  C8 on the example: a string is refused; registering the function 50 once more for
  "a" gives it the count 2 and the signal two references.
\<close>

theorem luaH_class_add_signal_checks_first_witness:
  "luaH_class_add_signal (on_stack [LString ''f'']) widget_class ''b'' 1 =
     ((Inl (Typerror 1 ''function'' ''string''), on_stack [LString ''f'']), widget_class) \<and>
   fst (fst (luaH_class_add_signal (on_stack [LFunction 50]) widget_class ''a'' 1)) = Inr () \<and>
   refcount (snd (fst (luaH_class_add_signal (on_stack [LFunction 50]) widget_class ''a'' 1))) 50 = 2 \<and>
   signals (snd (luaH_class_add_signal (on_stack [LFunction 50]) widget_class ''a'' 1)) ''a'' = [Some 50, Some 50]"
proof -
  note a = luaH_class_add_signal_checks_first
    [where L = "on_stack [LString ''f'']" and ud = 1 and lua_class = widget_class and nm = "''b''"]
  note b = luaH_class_add_signal_checks_first
    [where L = "on_stack [LFunction 50]" and ud = 1 and a = 50 and lua_class = widget_class
       and nm = "''a''"]
  from a b show ?thesis
    by (simp add: lua_isfunction_def lua_type_def luaL_typename_def lua_typename_def
        on_stack_def example_state_def widget_class_def index2adr_def)
qed

text \<open>
  C9. When the first argument is a handle tagged by a registered class,
  \<open>luaH_usemetatable\<close> either returns 1 or returns 0 with the state unchanged, and in
  that state \<open>luaH_class_get\<close> returns a registered class that tags the handle, never
  NULL. A dispatch that ends in a fault has called a callback: the code of the dispatch
  itself does not fault.
\<close>

theorem dispatch_class_resolved:
  assumes "cls \<in> set luaH_classes" and "tagged_by L 1 cls"
  shows "(luaH_usemetatable L 1 2 = (Inr 0, L) \<or> (\<exists>v. luaH_usemetatable L 1 2 = (Inr 1, push L v))) \<and>
         (\<exists>c \<in> set luaH_classes. tagged_by L 1 c \<and>
            luaH_class_get luaH_classes L 1 = (Inr (Some c), L)) \<and>
         (fst (luaH_class_index luaH_classes L) = Inl Segfault \<longrightarrow>
            calls (snd (luaH_class_index luaH_classes L)) \<noteq> calls L) \<and>
         (fst (luaH_class_newindex luaH_classes L) = Inl Segfault \<longrightarrow>
            calls (snd (luaH_class_newindex luaH_classes L)) \<noteq> calls L)"
proof -
  from assms(2) obtain a m where a: "index2adr L 1 = Some (LUserdata a)" "udata_mt L a = Some m"
    by (rule tagged_byD)
  then have gm: "getmetatable_of L (index2adr L 1) = Some m"
    by (simp add: getmetatable_of_def)
  have um: "luaH_usemetatable L 1 2 = (Inr 0, L) \<or> (\<exists>v. luaH_usemetatable L 1 2 = (Inr 1, push L v))"
    by (auto simp: luaH_usemetatable_eq [OF gm] Let_def)
  from luaH_class_get_tagged [OF assms] obtain c where
    c: "c \<in> set luaH_classes" "tagged_by L 1 c" "luaH_class_get luaH_classes L 1 = (Inr (Some c), L)"
    by blast
  have idx: "fst (luaH_class_index luaH_classes L) = Inl Segfault \<longrightarrow>
            calls (snd (luaH_class_index luaH_classes L)) \<noteq> calls L"
    using um
  proof
    assume u0: "luaH_usemetatable L 1 2 = (Inr 0, L)"
    from luaL_checklstring_key_cases [of L] show ?thesis
    proof
      assume "\<exists>attr L'. luaL_checklstring L 2 = (Inr attr, L') \<and> same_but_key L L'"
      then obtain attr L' where ck: "luaL_checklstring L 2 = (Inr attr, L')" and fr: "same_but_key L L'"
        by blast
      show ?thesis
        using same_but_key_calls [OF fr] call_propfunc_grows [of _ _ L']
        by (simp add: luaH_class_index_resolved [OF u0 c(3) ck fr a(1)] split: option.splits)
    next
      assume "luaL_checklstring L 2 = (Inl (Typerror 2 ''string'' (luaL_typename L 2)), L)"
      then show ?thesis
        by (simp add: luaH_class_index_def u0 c(3) luaH_class_property_get_def)
    qed
  next
    assume "\<exists>v. luaH_usemetatable L 1 2 = (Inr 1, push L v)"
    then show ?thesis by (auto simp: luaH_class_index_def)
  qed
  have nidx: "fst (luaH_class_newindex luaH_classes L) = Inl Segfault \<longrightarrow>
            calls (snd (luaH_class_newindex luaH_classes L)) \<noteq> calls L"
    using um
  proof
    assume u0: "luaH_usemetatable L 1 2 = (Inr 0, L)"
    from luaL_checklstring_key_cases [of L] show ?thesis
    proof
      assume "\<exists>attr L'. luaL_checklstring L 2 = (Inr attr, L') \<and> same_but_key L L'"
      then obtain attr L' where ck: "luaL_checklstring L 2 = (Inr attr, L')" and fr: "same_but_key L L'"
        by blast
      show ?thesis
        using same_but_key_calls [OF fr] call_propfunc_grows [of _ _ L']
        by (simp add: luaH_class_newindex_resolved [OF u0 c(3) ck fr a(1)] split: option.splits)
    next
      assume "luaL_checklstring L 2 = (Inl (Typerror 2 ''string'' (luaL_typename L 2)), L)"
      then show ?thesis
        by (simp add: luaH_class_newindex_def u0 c(3) luaH_class_property_get_def)
    qed
  next
    assume "\<exists>v. luaH_usemetatable L 1 2 = (Inr 1, push L v)"
    then show ?thesis by (auto simp: luaH_class_newindex_def)
  qed
  from um c idx nidx show ?thesis by blast
qed

text \<open>
  C9 on the example: the window 8 resolves to the window class, and both dispatches
  return through the miss handler.
\<close>

theorem dispatch_class_resolved_witness:
  "(200, window_class) \<in> set example_classes \<and>
   tagged_by (on_stack [LUserdata 8, LString ''nope'']) 1 (200, window_class) \<and>
   luaH_class_get example_classes (on_stack [LUserdata 8, LString ''nope'']) 1 =
     (Inr (Some (200, window_class)), on_stack [LUserdata 8, LString ''nope'']) \<and>
   fst (luaH_class_index example_classes (on_stack [LUserdata 8, LString ''nope''])) = Inr 1 \<and>
   fst (luaH_class_newindex example_classes (on_stack [LUserdata 8, LString ''nope''])) = Inr 1"
proof -
  have h1: "(200, window_class) \<in> set example_classes"
    by (simp add: example_classes_def)
  have h2: "tagged_by (on_stack [LUserdata 8, LString ''nope'']) 1 (200, window_class)"
    by (simp add: tagged_by_def api_defs example_defs)
  from dispatch_class_resolved [OF h1 h2] h1 h2 show ?thesis
    by (simp add: api_defs luaclass_defs example_defs Let_def)
qed

text \<open>
  C10. For a full userdata without a metatable, \<open>luaH_toudata\<close> returns the address of
  the userdata for every class, and \<open>luaH_class_get\<close> returns the first class of a
  registry that is not empty.
\<close>

theorem luaH_toudata_without_metatable:
  assumes "index2adr L idx = Some (LUserdata a)" and "udata_mt L a = None"
  shows "luaH_toudata L idx cls = (Inr (Some a), L) \<and>
         luaH_class_get (first # rest) L idx = (Inr (Some first), L)"
proof -
  have m: "getmetatable_of L (index2adr L idx) = None"
    using assms by (simp add: getmetatable_of_def)
  have u: "lua_touserdata L idx = Some a"
    using assms by (simp add: lua_touserdata_def)
  have t: "luaH_toudata L idx c = (Inr (Some a), L)" for c
    by (simp add: luaH_toudata_eq m u)
  have "lua_type L idx = LUA_TUSERDATA"
    using assms by (simp add: lua_type_def)
  then have "luaH_class_get (first # rest) L idx = (Inr (Some first), L)"
    by (simp add: luaH_class_get_def t)
  with t show ?thesis by simp
qed

text \<open>
  C10 on the example: the userdata 9 passes for a window, and its class is found to
  be the widget class, the first one registered.
\<close>

theorem luaH_toudata_without_metatable_witness:
  "luaH_toudata (on_stack [LUserdata 9]) 1 (200, window_class) = (Inr (Some 9), on_stack [LUserdata 9]) \<and>
   luaH_class_get example_classes (on_stack [LUserdata 9]) 1 =
     (Inr (Some (100, widget_class)), on_stack [LUserdata 9])"
proof -
  have a: "index2adr (on_stack [LUserdata 9]) 1 = Some (LUserdata 9)"
    by (simp add: index2adr_def on_stack_def)
  have b: "udata_mt (on_stack [LUserdata 9]) 9 = None"
    by (simp add: on_stack_def example_state_def)
  from luaH_toudata_without_metatable [OF a b, of "(200, window_class)" "(100, widget_class)" "[(200, window_class)]"]
  show ?thesis by (simp add: example_classes_def)
qed

end
